theory Spec2Isabelle
  imports Complex_Main "HOL-Library.Sublist" "HOL-Library.AList"
begin

section \<open>Python values\<close>

text \<open>
  The payloads that travel through the pipeline are decoded JSON: \<open>None\<close>, booleans,
  integers, floats, strings, lists and dictionaries with string keys. A dictionary is an
  association list in insertion order, looked up with \<^const>\<open>map_of\<close>. A string is a
  list of characters, each a code point in the range U+0000..U+00FF.
\<close>

datatype pyval =
    PNone
  | PBool bool
  | PInt int
  | PFloat real
  | PStr string
  | PList "pyval list"
  | PDict "(string \<times> pyval) list"

text \<open>
  Exceptions are values. The two last constructors are the exceptions the retry loops of
  \<open>data_processing.py\<close> raise themselves; they carry the exception of the last attempt,
  whose text the source formats into the message.
\<close>

datatype pyerr =
    AttributeError
  | TypeError
  | KeyError
  | IndexError
  | ProviderError string
  | Error_performing_search pyerr
  | Error_calling_Groq_API pyerr

text \<open>Truth value testing, as \<open>if x\<close>, \<open>not x\<close> and \<open>x or y\<close> do it.\<close>

fun py_truthy :: "pyval \<Rightarrow> bool" where
  "py_truthy PNone = False"
| "py_truthy (PBool b) = b"
| "py_truthy (PInt i) = (i \<noteq> 0)"
| "py_truthy (PFloat r) = (r \<noteq> 0)"
| "py_truthy (PStr s) = (s \<noteq> [])"
| "py_truthy (PList xs) = (xs \<noteq> [])"
| "py_truthy (PDict d) = (d \<noteq> [])"

fun isinstance_list :: "pyval \<Rightarrow> bool" where
  "isinstance_list (PList xs) = True"
| "isinstance_list v = False"

fun isinstance_dict :: "pyval \<Rightarrow> bool" where
  "isinstance_dict (PDict d) = True"
| "isinstance_dict v = False"

text \<open>\<open>for x in v\<close>: a list yields its items, a dictionary its keys, a string its
  characters; nothing else is iterable.\<close>

fun py_iter :: "pyval \<Rightarrow> pyerr + pyval list" where
  "py_iter (PList xs) = Inr xs"
| "py_iter (PDict d) = Inr (map (\<lambda>kv. PStr (fst kv)) d)"
| "py_iter (PStr s) = Inr (map (\<lambda>c. PStr [c]) s)"
| "py_iter v = Inl TypeError"

text \<open>\<open>v.get(key, default)\<close>: only dictionaries have the method.\<close>

fun py_get :: "pyval \<Rightarrow> string \<Rightarrow> pyval \<Rightarrow> pyerr + pyval" where
  "py_get (PDict d) key dflt = Inr (case map_of d key of Some v \<Rightarrow> v | None \<Rightarrow> dflt)"
| "py_get v key dflt = Inl AttributeError"

text \<open>\<open>v[key]\<close> with a string key.\<close>

fun py_getitem :: "pyval \<Rightarrow> string \<Rightarrow> pyerr + pyval" where
  "py_getitem (PDict d) key = (case map_of d key of Some v \<Rightarrow> Inr v | None \<Rightarrow> Inl KeyError)"
| "py_getitem v key = Inl TypeError"

text \<open>The characters \<open>str.isspace\<close> accepts, up to U+00FF.\<close>

definition py_isspace :: "char \<Rightarrow> bool" where
  "py_isspace c =
     (let n = (of_char c :: nat)
      in (9 \<le> n \<and> n \<le> 13) \<or> (28 \<le> n \<and> n \<le> 32) \<or> n = 133 \<or> n = 160)"

definition strip :: "string \<Rightarrow> string" where
  "strip s = rev (dropWhile py_isspace (rev (dropWhile py_isspace s)))"

text \<open>\<open>v.strip()\<close>: of these values only strings have the method.\<close>

fun py_strip :: "pyval \<Rightarrow> pyerr + pyval" where
  "py_strip (PStr s) = Inr (PStr (strip s))"
| "py_strip v = Inl AttributeError"

text \<open>Sequencing of two steps of which the first may raise.\<close>

definition and_then :: "'e + 'a \<Rightarrow> ('a \<Rightarrow> 'e + 'b) \<Rightarrow> 'e + 'b" where
  "and_then r f = (case r of Inl e \<Rightarrow> Inl e | Inr x \<Rightarrow> f x)"

section \<open>\<open>preprocess_search_results\<close>\<close>

text \<open>The dictionary display of lines 281--285, evaluated key by key.\<close>

definition cleaned_result :: "pyval \<Rightarrow> pyerr + pyval" where
  "cleaned_result result =
     and_then (and_then (py_get result ''title'' (PStr '''')) py_strip) (\<lambda>title.
     and_then (and_then (py_get result ''url'' (PStr '''')) py_strip) (\<lambda>url.
     and_then (and_then (py_get result ''snippet'' (PStr '''')) py_strip) (\<lambda>snippet.
     Inr (PDict [(''title'', title), (''url'', url), (''snippet'', snippet)]))))"

text \<open>The loop of lines 279--286 with its accumulator \<open>cleaned_results\<close>.\<close>

fun clean_loop :: "pyval list \<Rightarrow> pyval list \<Rightarrow> pyerr + pyval list" where
  "clean_loop [] cleaned_results = Inr cleaned_results"
| "clean_loop (result # rest) cleaned_results =
     (if isinstance_dict result
      then (case cleaned_result result of
              Inl e \<Rightarrow> Inl e
            | Inr c \<Rightarrow> clean_loop rest (cleaned_results @ [c]))
      else clean_loop rest cleaned_results)"

definition preprocess_search_results :: "pyval \<Rightarrow> pyerr + pyval" where
  "preprocess_search_results results =
     (if \<not> py_truthy results \<or> \<not> isinstance_list results then Inr (PList [])
      else (case results of
              PList items \<Rightarrow> and_then (clean_loop items []) (\<lambda>cleaned. Inr (PList cleaned))
            | _ \<Rightarrow> Inr (PList [])))"

section \<open>\<open>classify_query\<close>\<close>

text \<open>\<open>str.lower\<close> on code points up to U+00FF: the ASCII capitals and the Latin-1
  capitals U+00C0..U+00DE, the multiplication sign U+00D7 apart.\<close>

definition py_lower_char :: "char \<Rightarrow> char" where
  "py_lower_char c =
     (let n = (of_char c :: nat)
      in if (65 \<le> n \<and> n \<le> 90) \<or> (192 \<le> n \<and> n \<le> 222 \<and> n \<noteq> 215)
         then char_of (n + 32) else c)"

definition lower :: "string \<Rightarrow> string" where
  "lower s = map py_lower_char s"

text \<open>\<open>sub in s\<close> on strings: \<open>sub\<close> occurs in \<open>s\<close> as a contiguous block.\<close>

fun py_in :: "string \<Rightarrow> string \<Rightarrow> bool" where
  "py_in sub [] = (sub = [])"
| "py_in sub (c # cs) = (prefix sub (c # cs) \<or> py_in sub cs)"

definition classify_query :: "string \<Rightarrow> string" where
  "classify_query query =
     (let query_lower = lower query in
      if py_in ''net worth'' query_lower then ''Net Worth''
      else if py_in ''age'' query_lower \<or> py_in ''born'' query_lower then ''Age''
      else if py_in ''career'' query_lower \<or> py_in ''biography'' query_lower then ''Biography''
      else if py_in ''parents'' query_lower \<or> py_in ''family'' query_lower
        then ''Family Information''
      else if py_in ''job'' query_lower \<or> py_in ''career'' query_lower then ''Career''
      else if py_in ''education'' query_lower \<or> py_in ''school'' query_lower then ''Education''
      else if py_in ''married'' query_lower \<or> py_in ''spouse'' query_lower
        then ''Personal Life''
      else if py_in ''award'' query_lower \<or> py_in ''achievement'' query_lower
        then ''Awards & Achievements''
      else if py_in ''history'' query_lower \<or> py_in ''background'' query_lower
        then ''Company Info''
      else if py_in ''product'' query_lower \<or> py_in ''service'' query_lower
        then ''Product Info''
      else if py_in ''news'' query_lower \<or> py_in ''latest'' query_lower then ''News''
      else if py_in ''social media'' query_lower \<or> py_in ''twitter'' query_lower
              \<or> py_in ''instagram'' query_lower
        then ''Social Media''
      else if py_in ''charity'' query_lower \<or> py_in ''philanthropy'' query_lower
        then ''Philanthropy''
      else if py_in ''property'' query_lower \<or> py_in ''real estate'' query_lower
        then ''Real Estate''
      else if py_in ''health'' query_lower \<or> py_in ''condition'' query_lower then ''Health''
      else if py_in ''event'' query_lower \<or> py_in ''conference'' query_lower then ''Events''
      else if py_in ''fruit'' query_lower \<or> py_in ''vegetable'' query_lower then ''Fruit''
      else ''Miscellaneous'')"

section \<open>The outside world\<close>

text \<open>
  What the program does to the outside is a trace of events, oldest first: the requests
  it sends, the seconds it sleeps and the error lines it shows. The search provider, the
  language model and the tagger are parameters. A provider answers a request in view of
  everything that happened before it, so that it may fail now and succeed later.
  The chat completion is read only through \<open>choices[0].message.content\<close>: the answer
  is the list of the choices' contents, \<open>None\<close> where a message has none.
  \<open>str_of\<close> is Python's \<open>str()\<close> on values other than strings.
  \<open>get_dict\<close> is given the parameters of the search, and \<open>SERP_API_KEY\<close> is the value
  read from the environment.
  The entities of the input column and the query template are strings, the tagger
  answers on every string, and the two clients are constructed (their keys are set).
\<close>

datatype event =
    Sleep nat
  | SearchCall string
  | ChatCall string
  | St_error_attempt nat pyerr
  | St_error_all_retries_failed

type_synonym world = "event list"

record env =
  SERP_API_KEY :: pyval
  get_dict :: "world \<Rightarrow> (string \<times> pyval) list \<Rightarrow> pyerr + (string \<times> pyval) list"
  chat_completions_create :: "world \<Rightarrow> string \<Rightarrow> pyerr + string option list"
  nlp_ents :: "string \<Rightarrow> (string \<times> string) list"
  str_of :: "pyval \<Rightarrow> string"

definition MAX_RETRIES :: nat where
  "MAX_RETRIES = 3"

definition RETRY_DELAY :: nat where
  "RETRY_DELAY = 2"

text \<open>A list comprehension whose element expression may raise.\<close>

fun comprehension :: "('a \<Rightarrow> 'e + 'b) \<Rightarrow> 'a list \<Rightarrow> 'e + 'b list" where
  "comprehension f [] = Inr []"
| "comprehension f (x # xs) =
     (case f x of
        Inl e \<Rightarrow> Inl e
      | Inr y \<Rightarrow> (case comprehension f xs of Inl e \<Rightarrow> Inl e | Inr ys \<Rightarrow> Inr (y # ys)))"

section \<open>\<open>search_entity_info\<close>\<close>

text \<open>The parameters of the search, lines 92--99.\<close>

definition search_params :: "env \<Rightarrow> string \<Rightarrow> (string \<times> pyval) list" where
  "search_params env entity =
     [(''q'', PStr entity),
      (''api_key'', SERP_API_KEY env),
      (''num'', PInt 10),
      (''hl'', PStr ''en''),
      (''gl'', PStr ''us''),
      (''filter'', PStr ''1'')]"

text \<open>The dictionary display of lines 107--111.\<close>

definition search_hit :: "pyval \<Rightarrow> pyerr + pyval" where
  "search_hit result =
     and_then (py_get result ''title'' (PStr ''N/A'')) (\<lambda>title.
     and_then (py_get result ''link'' (PStr ''N/A'')) (\<lambda>url.
     and_then (py_get result ''snippet'' (PStr ''N/A'')) (\<lambda>snippet.
     Inr (PDict [(''title'', title), (''url'', url), (''snippet'', snippet)]))))"

text \<open>Lines 105--115: what the \<open>try\<close> block makes of the provider's answer.\<close>

definition organic_hits :: "(string \<times> pyval) list \<Rightarrow> pyerr + pyval" where
  "organic_hits results =
     (case map_of results ''organic_results'' of
        None \<Rightarrow> Inr (PList [])
      | Some organic \<Rightarrow>
          if py_truthy organic
          then and_then (py_iter organic) (\<lambda>items.
               and_then (comprehension search_hit items) (\<lambda>hits. Inr (PList hits)))
          else Inr (PList []))"

text \<open>One attempt, lines 103--115: the request and what is made of its answer. Everything
  the \<open>try\<close> block raises, by the provider or by the comprehension, is caught alike.\<close>

definition search_try :: "env \<Rightarrow> string \<Rightarrow> world \<Rightarrow> pyerr + pyval" where
  "search_try env entity w = and_then (get_dict env w (search_params env entity)) organic_hits"

text \<open>The loop \<open>for attempt in range(MAX_RETRIES)\<close> of lines 101--120, and the
  \<open>return []\<close> of line 122 behind it.\<close>

fun search_attempts :: "env \<Rightarrow> string \<Rightarrow> nat list \<Rightarrow> world \<Rightarrow> (pyerr + pyval) \<times> world" where
  "search_attempts env entity [] w = (Inr (PList []), w)"
| "search_attempts env entity (attempt # rest) w =
     (case search_try env entity w of
        Inr hits \<Rightarrow> (Inr hits, w @ [SearchCall entity])
      | Inl e \<Rightarrow>
          if attempt < MAX_RETRIES - 1
          then search_attempts env entity rest
                 (w @ [SearchCall entity, Sleep (RETRY_DELAY * 2 ^ attempt)])
          else (Inl (Error_performing_search e), w @ [SearchCall entity]))"

definition search_entity_info :: "env \<Rightarrow> string \<Rightarrow> world \<Rightarrow> (pyerr + pyval) \<times> world" where
  "search_entity_info env entity w = search_attempts env entity [0..<MAX_RETRIES] w"

section \<open>\<open>extract_information_with_groq\<close>\<close>

text \<open>\<open>s.replace(old, new)\<close> for a non-empty \<open>old\<close>, left to right; \<open>skip\<close> counts
  the characters of a match still to be passed over.\<close>

fun replace_from :: "string \<Rightarrow> string \<Rightarrow> nat \<Rightarrow> string \<Rightarrow> string" where
  "replace_from old new skip [] = []"
| "replace_from old new (Suc skip) (c # cs) = replace_from old new skip cs"
| "replace_from old new 0 (c # cs) =
     (if prefix old (c # cs) then new @ replace_from old new (length old - 1) cs
      else c # replace_from old new 0 cs)"

definition generate_query :: "string \<Rightarrow> string \<Rightarrow> string" where
  "generate_query entity query_template = replace_from ''{entity}'' entity 0 query_template"

fun py_join :: "string \<Rightarrow> string list \<Rightarrow> string" where
  "py_join sep [] = []"
| "py_join sep [x] = x"
| "py_join sep (x # y # ys) = x @ sep @ py_join sep (y # ys)"

text \<open>A value inside an f-string.\<close>

definition py_format :: "env \<Rightarrow> pyval \<Rightarrow> string" where
  "py_format env v = (case v of PStr s \<Rightarrow> s | _ \<Rightarrow> str_of env v)"

text \<open>Lines 158--161: one paragraph for each search result.\<close>

definition result_paragraph :: "env \<Rightarrow> pyval \<Rightarrow> pyerr + string" where
  "result_paragraph env result =
     and_then (py_getitem result ''title'') (\<lambda>title.
     and_then (py_getitem result ''url'') (\<lambda>url.
     and_then (py_getitem result ''snippet'') (\<lambda>snippet.
     Inr (''Title: '' @ py_format env title @ ''\<newline>URL: '' @ py_format env url
          @ ''\<newline>Snippet: '' @ py_format env snippet))))"

definition search_context :: "env \<Rightarrow> pyval \<Rightarrow> pyerr + string" where
  "search_context env search_results =
     and_then (py_iter search_results) (\<lambda>items.
     and_then (comprehension (result_paragraph env) items) (\<lambda>paragraphs.
     Inr (py_join ''\<newline>\<newline>'' paragraphs)))"

text \<open>The f-string of lines 164--179.\<close>

definition prompt_text :: "string \<Rightarrow> string \<Rightarrow> string \<Rightarrow> string \<Rightarrow> string" where
  \<open>prompt_text query entity query_type context =
     ''\<newline>    Task: Extract the most relevant information for the following query based on the search results.\<newline>''
     @ ''\<newline>    Query: "'' @ query @ ''"\<newline>''
     @ ''    Entity: '' @ entity @ ''\<newline>''
     @ ''    Query Type: '' @ query_type @ ''\<newline>''
     @ ''\<newline>    Search Results:\<newline>''
     @ ''    '' @ context @ ''\<newline>''
     @ ''\<newline>    Instructions:\<newline>''
     @ ''    - If you find the exact answer, provide it directly in one word.\<newline>''
     @ ''    - If relevant information is partially available, summarize the context.\<newline>''
     @ ''    - If no relevant information is available, return: "Data not found."\<newline>''
     @ ''    - Ensure the response is concise and accurate.\<newline>''
     @ ''    ''\<close>

definition build_prompt :: "env \<Rightarrow> string \<Rightarrow> pyval \<Rightarrow> string \<Rightarrow> string \<Rightarrow> pyerr + string" where
  "build_prompt env entity search_results query_template query_type =
     and_then (search_context env search_results) (\<lambda>context.
     Inr (prompt_text (generate_query entity query_template) entity query_type context))"

text \<open>Line 187: \<open>chat_completion.choices[0].message.content.strip()\<close>.\<close>

fun first_choice_stripped :: "string option list \<Rightarrow> pyerr + pyval" where
  "first_choice_stripped [] = Inl IndexError"
| "first_choice_stripped (None # choices) = Inl AttributeError"
| "first_choice_stripped (Some content # choices) = Inr (PStr (strip content))"

text \<open>One attempt, lines 183--187.\<close>

definition groq_try :: "env \<Rightarrow> string \<Rightarrow> world \<Rightarrow> pyerr + pyval" where
  "groq_try env prompt w = and_then (chat_completions_create env w prompt) first_choice_stripped"

text \<open>The loop of lines 181--192; a loop that ran out would fall off the end of the
  function, which returns \<open>None\<close>.\<close>

fun groq_attempts :: "env \<Rightarrow> string \<Rightarrow> nat list \<Rightarrow> world \<Rightarrow> (pyerr + pyval) \<times> world" where
  "groq_attempts env prompt [] w = (Inr PNone, w)"
| "groq_attempts env prompt (attempt # rest) w =
     (case groq_try env prompt w of
        Inr answer \<Rightarrow> (Inr answer, w @ [ChatCall prompt])
      | Inl e \<Rightarrow>
          if attempt < MAX_RETRIES - 1
          then groq_attempts env prompt rest
                 (w @ [ChatCall prompt, Sleep (RETRY_DELAY * 2 ^ attempt)])
          else (Inl (Error_calling_Groq_API e), w @ [ChatCall prompt]))"

definition extract_information_with_groq ::
  "env \<Rightarrow> string \<Rightarrow> pyval \<Rightarrow> string \<Rightarrow> string \<Rightarrow> world \<Rightarrow> (pyerr + pyval) \<times> world" where
  "extract_information_with_groq env entity search_results query_template query_type w =
     (case build_prompt env entity search_results query_template query_type of
        Inl e \<Rightarrow> (Inl e, w)
      | Inr prompt \<Rightarrow> groq_attempts env prompt [0..<MAX_RETRIES] w)"

section \<open>\<open>perform_ner\<close>\<close>

text \<open>
  \<open>doc.ents\<close> is the tagger's list of spans, each with its label and its text, in the
  order of the text. The dictionary keeps a key where it was first inserted and
  overwrites its value, which is what \<^const>\<open>AList.update\<close> does.
\<close>

fun ner_loop :: "(string \<times> string) list \<Rightarrow> (string \<times> string) list \<Rightarrow> (string \<times> string) list" where
  "ner_loop [] entities = entities"
| "ner_loop (ent # ents) entities = ner_loop ents (AList.update (fst ent) (snd ent) entities)"

definition perform_ner :: "env \<Rightarrow> string \<Rightarrow> (string \<times> string) list" where
  "perform_ner env text = ner_loop (nlp_ents env text) []"

section \<open>\<open>app.py\<close>: \<open>safe_api_call\<close> and the loop over the entities\<close>

definition RATE_LIMIT_DELAY :: nat where
  "RATE_LIMIT_DELAY = 2"

definition app_MAX_RETRIES :: nat where
  "app_MAX_RETRIES = 3"

text \<open>
  Lines 38--49. The wrapped call is a function of the world. After the last failed
  attempt the loop runs out and the function returns \<open>None\<close>.
\<close>

fun safe_attempts :: "(world \<Rightarrow> (pyerr + pyval) \<times> world) \<Rightarrow> nat list \<Rightarrow> world \<Rightarrow> pyval \<times> world" where
  "safe_attempts api_function [] w = (PNone, w)"
| "safe_attempts api_function (attempt # rest) w =
     (case api_function w of
        (Inr response, w1) \<Rightarrow> (response, w1)
      | (Inl e, w1) \<Rightarrow>
          if attempt < app_MAX_RETRIES - 1
          then safe_attempts api_function rest
                 (w1 @ [St_error_attempt (attempt + 1) e, Sleep (RATE_LIMIT_DELAY * 2 ^ attempt)])
          else safe_attempts api_function rest
                 (w1 @ [St_error_attempt (attempt + 1) e, St_error_all_retries_failed]))"

definition safe_api_call :: "(world \<Rightarrow> (pyerr + pyval) \<times> world) \<Rightarrow> world \<Rightarrow> pyval \<times> world" where
  "safe_api_call api_function w = safe_attempts api_function [0..<app_MAX_RETRIES] w"

text \<open>One dictionary of the list \<open>results\<close>, lines 290--308.\<close>

record row =
  Entity :: string
  Extracted_Information :: pyval
  Search_Title :: string
  Search_URL :: string
  Search_Snippet :: string
  NER_Results :: "(string \<times> string) list"
  Query_Type :: string

text \<open>\<open>sep.join(items)\<close>: every item has to be a string.\<close>

definition as_str :: "pyval \<Rightarrow> pyerr + string" where
  "as_str v = (case v of PStr s \<Rightarrow> Inr s | _ \<Rightarrow> Inl TypeError)"

definition join_values :: "string \<Rightarrow> pyval list \<Rightarrow> pyerr + string" where
  "join_values sep items = and_then (comprehension as_str items) (\<lambda>strs. Inr (py_join sep strs))"

text \<open>\<open>", ".join([result.get(key, "") for result in preprocessed_results])\<close>\<close>

definition joined_field :: "string \<Rightarrow> pyval \<Rightarrow> pyerr + string" where
  "joined_field key preprocessed_results =
     and_then (py_iter preprocessed_results) (\<lambda>items.
     and_then (comprehension (\<lambda>result. py_get result key (PStr '''')) items)
       (join_values '', ''))"

text \<open>\<open>x or y\<close>\<close>

definition py_or :: "pyval \<Rightarrow> pyval \<Rightarrow> pyval" where
  "py_or x y = (if py_truthy x then x else y)"

text \<open>
  The body of the loop, lines 272--311. An exception raised outside \<open>safe_api_call\<close>
  (by the preprocessing, or while a row is put together) is not caught.
\<close>

definition process_entity :: "env \<Rightarrow> string \<Rightarrow> string \<Rightarrow> world \<Rightarrow> (pyerr + row) \<times> world" where
  "process_entity env query_template entity w =
     (let ner_results = perform_ner env entity;
          query_type = classify_query query_template;
          (web_result, w1) = safe_api_call (search_entity_info env entity) w
      in if py_truthy web_result
         then (case preprocess_search_results web_result of
                 Inl e \<Rightarrow> (Inl e, w1)
               | Inr preprocessed_results \<Rightarrow>
                   (let (extracted_info, w2) =
                          safe_api_call
                            (extract_information_with_groq env entity preprocessed_results
                               query_template query_type) w1
                    in case and_then (joined_field ''title'' preprocessed_results) (\<lambda>titles.
                            and_then (joined_field ''url'' preprocessed_results) (\<lambda>urls.
                            and_then (joined_field ''snippet'' preprocessed_results) (\<lambda>snippets.
                            Inr \<lparr>Entity = entity,
                                 Extracted_Information =
                                   py_or extracted_info (PStr ''Failed to extract''),
                                 Search_Title = titles,
                                 Search_URL = urls,
                                 Search_Snippet = snippets,
                                 NER_Results = ner_results,
                                 Query_Type = query_type\<rparr>))) of
                         Inl e \<Rightarrow> (Inl e, w2)
                       | Inr r \<Rightarrow> (Inr r, w2 @ [Sleep RATE_LIMIT_DELAY])))
         else (Inr \<lparr>Entity = entity,
                    Extracted_Information = PStr ''No search results found'',
                    Search_Title = '''',
                    Search_URL = '''',
                    Search_Snippet = '''',
                    NER_Results = ner_results,
                    Query_Type = query_type\<rparr>,
               w1 @ [Sleep RATE_LIMIT_DELAY]))"

text \<open>The loop \<open>for entity in data[primary_column]\<close> with the list \<open>results\<close> it
  appends to; an uncaught exception ends the run.\<close>

fun run_entities :: "env \<Rightarrow> string \<Rightarrow> string list \<Rightarrow> row list \<Rightarrow> world \<Rightarrow> (pyerr + row list) \<times> world" where
  "run_entities env query_template [] results w = (Inr results, w)"
| "run_entities env query_template (entity # rest) results w =
     (case process_entity env query_template entity w of
        (Inl e, w') \<Rightarrow> (Inl e, w')
      | (Inr r, w') \<Rightarrow> run_entities env query_template rest (results @ [r]) w')"

section \<open>Notions used in the statements and proofs\<close>

text \<open>The dictionary that lines 281--285 build, with strings in its three fields.\<close>

definition hit :: "string \<times> string \<times> string \<Rightarrow> pyval" where
  "hit h = (case h of (title, url, snippet) \<Rightarrow>
     PDict [(''title'', PStr title), (''url'', PStr url), (''snippet'', PStr snippet)])"

text \<open>A dictionary as \<open>preprocess_search_results\<close> puts it out: the three keys in
  order, each bound to a stripped string.\<close>

definition stripped_hit :: "pyval \<Rightarrow> bool" where
  "stripped_hit c = (\<exists>t u s. c = PDict [(''title'', PStr (strip t)), (''url'', PStr (strip u)), (''snippet'', PStr (strip s))])"



section \<open>Example providers and answers\<close>

text \<open>A provider that gives the same answer to every request, and a tagger that finds
  the same three spans in every text.\<close>

definition example_env :: "(pyerr + (string \<times> pyval) list) \<Rightarrow> (pyerr + string option list) \<Rightarrow> env" where
  "example_env search_answer chat_answer =
     \<lparr>SERP_API_KEY = PStr ''key'',
      get_dict = (\<lambda>w params. search_answer),
      chat_completions_create = (\<lambda>w prompt. chat_answer),
      nlp_ents = (\<lambda>text. [(''PERSON'', ''Ada''), (''DATE'', ''1815''), (''PERSON'', ''Byron'')]),
      str_of = (\<lambda>v. ''?'')\<rparr>"

text \<open>Neither the search provider nor the language model can be reached.\<close>

definition env_unreachable :: env where
  "env_unreachable = example_env (Inl (ProviderError ''unreachable'')) (Inl (ProviderError ''unreachable''))"

text \<open>Answers of the search provider: two organic results, none, and one result
  without a title.\<close>

definition two_results :: "(string \<times> pyval) list" where
  "two_results =
     [(''search_metadata'', PDict [(''status'', PStr ''Success'')]),
      (''organic_results'',
       PList [PDict [(''title'', PStr ''A''), (''link'', PStr ''http://a''), (''snippet'', PStr '' first '')],
              PDict [(''title'', PStr ''B''), (''link'', PStr ''http://b''), (''snippet'', PStr ''second'')]])]"

definition no_results :: "(string \<times> pyval) list" where
  "no_results = [(''search_metadata'', PDict [(''status'', PStr ''Success'')])]"


text \<open>The search answers, the language model does not.\<close>

definition env_no_model :: env where
  "env_no_model = example_env (Inr two_results) (Inl (ProviderError ''rate limit''))"



section \<open>Lemmas\<close>

subsection \<open>Values and strings\<close>

lemma strip_idem: "strip (strip s) = strip s"
proof -
  define u where "u = dropWhile py_isspace s"
  define t where "t = rev (dropWhile py_isspace (rev u))"
  have u_fix: "dropWhile py_isspace u = u" by (simp add: u_def)
  have "rev (takeWhile py_isspace (rev u) @ dropWhile py_isspace (rev u)) = u"
    by (simp only: takeWhile_dropWhile_id rev_rev_ident)
  then have u_split: "u = t @ rev (takeWhile py_isspace (rev u))"
    by (simp only: rev_append t_def)
  have t_fix: "dropWhile py_isspace t = t"
  proof (cases t)
    case Nil then show ?thesis by simp
  next
    case (Cons x t')
    with u_split obtain r where "u = x # r" by auto
    with u_fix have "\<not> py_isspace x"
      by (metis dropWhile_eq_Cons_conv)
    with Cons show ?thesis by simp
  qed
  have "strip (strip s) = rev (dropWhile py_isspace (rev (dropWhile py_isspace t)))"
    by (simp add: strip_def t_def u_def)
  also have "\<dots> = rev (dropWhile py_isspace (rev t))" by (simp add: t_fix)
  also have "\<dots> = t" by (simp add: t_def)
  finally show ?thesis by (simp add: strip_def t_def u_def)
qed



lemma and_then_Inr: "and_then r f = Inr y \<longleftrightarrow> (\<exists>x. r = Inr x \<and> f x = Inr y)"
  by (cases r) (simp_all add: and_then_def)

lemma py_strip_Inr: "py_strip v = Inr x \<longleftrightarrow> (\<exists>s. v = PStr s \<and> x = PStr (strip s))"
  by (cases v) auto

lemma py_in_sublist: "py_in sub s \<longleftrightarrow> sublist sub s"
  by (induction s) (auto simp: sublist_Cons_right)

lemma hit_inj: "hit a = hit b \<longleftrightarrow> a = b"
  by (cases a; cases b) (simp add: hit_def)

lemma comprehension_Inr:
  "comprehension f xs = Inr ys \<longleftrightarrow> list_all2 (\<lambda>x y. f x = Inr y) xs ys"
proof (induction xs arbitrary: ys)
  case Nil then show ?case by auto
next
  case (Cons x xs)
  show ?case
    by (auto simp: list_all2_Cons1 Cons.IH [symmetric] split: sum.splits)
qed

lemma comprehension_map:
  "(\<And>x. x \<in> set xs \<Longrightarrow> f x = Inr (g x)) \<Longrightarrow> comprehension f xs = Inr (map g xs)"
  by (induction xs) simp_all

subsection \<open>The preprocessing loop\<close>

lemma cleaned_result_shape:
  assumes "cleaned_result r = Inr c"
  shows "stripped_hit c"
  using assms unfolding cleaned_result_def stripped_hit_def
  by (auto simp: and_then_Inr py_strip_Inr)

lemma cleaned_result_fixed:
  assumes "stripped_hit c"
  shows "isinstance_dict c \<and> cleaned_result c = Inr c"
  using assms unfolding stripped_hit_def
  by (auto simp: cleaned_result_def and_then_def strip_idem)

lemma clean_loop_shape:
  "clean_loop items acc = Inr out \<Longrightarrow> \<forall>c\<in>set acc. stripped_hit c \<Longrightarrow> \<forall>c\<in>set out. stripped_hit c"
proof (induction items arbitrary: acc)
  case Nil then show ?case by simp
next
  case (Cons r rest)
  show ?case
  proof (cases "isinstance_dict r")
    case False
    with Cons show ?thesis by simp
  next
    case True
    with Cons.prems(1) obtain c where c: "cleaned_result r = Inr c"
      and rest: "clean_loop rest (acc @ [c]) = Inr out"
      by (auto split: sum.splits)
    from c have "stripped_hit c" by (rule cleaned_result_shape)
    with Cons.prems(2) have "\<forall>x\<in>set (acc @ [c]). stripped_hit x" by simp
    with Cons.IH [OF rest] show ?thesis .
  qed
qed

lemma clean_loop_fixed:
  "\<forall>c\<in>set xs. stripped_hit c \<Longrightarrow> clean_loop xs acc = Inr (acc @ xs)"
  by (induction xs arbitrary: acc) (auto simp: cleaned_result_fixed)

lemma clean_loop_length:
  "clean_loop items acc = Inr out \<Longrightarrow> \<forall>i\<in>set items. isinstance_dict i \<Longrightarrow>
     length out = length acc + length items"
proof (induction items arbitrary: acc)
  case Nil then show ?case by simp
next
  case (Cons r rest)
  from Cons.prems obtain c where "clean_loop rest (acc @ [c]) = Inr out"
    by (auto split: sum.splits)
  from Cons.IH [OF this] Cons.prems(2) show ?case by simp
qed

lemma stripped_hits_map:
  "\<forall>c\<in>set cleaned. stripped_hit c \<Longrightarrow> \<exists>hits. cleaned = map hit hits"
proof (induction cleaned)
  case Nil then show ?case by simp
next
  case (Cons c cleaned)
  then obtain hits where h: "cleaned = map hit hits" by auto
  from Cons.prems obtain t u s where "c = hit (strip t, strip u, strip s)"
    by (auto simp: stripped_hit_def hit_def)
  with h have "c # cleaned = map hit ((strip t, strip u, strip s) # hits)" by simp
  then show ?case by (rule exI [of _ "(strip t, strip u, strip s) # hits"])
qed

subsection \<open>The retry loops\<close>

lemma range_MAX_RETRIES: "[0..<MAX_RETRIES] = [0, 1, 2]"
  by (simp add: MAX_RETRIES_def upt_rec)

lemma range_app_MAX_RETRIES: "[0..<app_MAX_RETRIES] = [0, 1, 2]"
  by (simp add: app_MAX_RETRIES_def upt_rec)

lemma search_three_failures:
  assumes "search_try env entity w = Inl e1"
    and "search_try env entity (w @ [SearchCall entity, Sleep 2]) = Inl e2"
    and "search_try env entity (w @ [SearchCall entity, Sleep 2, SearchCall entity, Sleep 4]) = Inl e3"
  shows "search_entity_info env entity w =
    (Inl (Error_performing_search e3),
     w @ [SearchCall entity, Sleep 2, SearchCall entity, Sleep 4, SearchCall entity])"
  using assms unfolding search_entity_info_def range_MAX_RETRIES
  by (simp add: MAX_RETRIES_def RETRY_DELAY_def)

lemma groq_three_failures:
  assumes "groq_try env prompt w = Inl e1"
    and "groq_try env prompt (w @ [ChatCall prompt, Sleep 2]) = Inl e2"
    and "groq_try env prompt (w @ [ChatCall prompt, Sleep 2, ChatCall prompt, Sleep 4]) = Inl e3"
  shows "groq_attempts env prompt [0..<MAX_RETRIES] w =
    (Inl (Error_calling_Groq_API e3),
     w @ [ChatCall prompt, Sleep 2, ChatCall prompt, Sleep 4, ChatCall prompt])"
  using assms unfolding range_MAX_RETRIES
  by (simp add: MAX_RETRIES_def RETRY_DELAY_def)

lemma safe_attempts_all_raise:
  "\<forall>w'. isl (fst (api w')) \<Longrightarrow> fst (safe_attempts api xs w) = PNone"
proof (induction xs arbitrary: w)
  case Nil then show ?case by simp
next
  case (Cons attempt rest)
  obtain r w1 where a: "api w = (r, w1)" by (cases "api w")
  with Cons.prems have "isl r" by (metis fst_conv)
  then obtain e where "r = Inl e" by (cases r) auto
  with a Cons show ?case by simp
qed

lemma safe_attempts_response:
  "safe_attempts api xs w = (v, w') \<Longrightarrow> v = PNone \<or> (\<exists>w0 w0'. api w0 = (Inr v, w0'))"
proof (induction xs arbitrary: w)
  case Nil then show ?case by simp
next
  case (Cons attempt rest)
  obtain r w1 where a: "api w = (r, w1)" by (cases "api w")
  show ?case
  proof (cases r)
    case (Inr response)
    with a Cons.prems show ?thesis by auto
  next
    case (Inl e)
    with a Cons.prems Cons.IH show ?thesis by (auto split: if_splits)
  qed
qed

lemma search_all_raise_unreachable:
  "isl (fst (search_entity_info env_unreachable entity w'))"
proof -
  have s: "search_try env_unreachable entity w = Inl (ProviderError ''unreachable'')" for w
    by (simp add: search_try_def env_unreachable_def example_env_def and_then_def)
  show ?thesis using search_three_failures [OF s s s, of w'] by simp
qed

subsection \<open>What a search returns\<close>

lemma search_hit_Inr:
  "search_hit r = Inr h \<Longrightarrow> isinstance_dict r \<and> isinstance_dict h"
  by (cases r) (auto simp: search_hit_def and_then_def)


lemma comprehension_search_hit_items:
  assumes "items \<noteq> []" and "py_iter organic = Inr items"
    and "comprehension search_hit items = Inr hits"
  shows "organic = PList items"
proof (cases organic)
  case (PList xs)
  with assms show ?thesis by simp
next
  case (PDict d)
  with assms obtain kv rest where "items = PStr (fst kv) # rest" by (cases d) auto
  with assms(3) show ?thesis by (auto simp: search_hit_def and_then_def split: sum.splits)
next
  case (PStr s)
  with assms obtain c rest where "items = PStr [c] # rest" by (cases s) auto
  with assms(3) show ?thesis by (auto simp: search_hit_def and_then_def split: sum.splits)
qed (use assms in simp_all)

lemma organic_hits_Inr:
  assumes "organic_hits results = Inr v"
  shows "case map_of results ''organic_results'' of
           None \<Rightarrow> v = PList []
         | Some organic \<Rightarrow>
             if py_truthy organic
             then \<exists>items hits. organic = PList items \<and> v = PList hits
                    \<and> length hits = length items
                    \<and> list_all2 (\<lambda>r h. search_hit r = Inr h) items hits
             else v = PList []"
proof (cases "map_of results ''organic_results''")
  case None
  with assms show ?thesis by (simp add: organic_hits_def)
next
  case (Some organic)
  show ?thesis
  proof (cases "py_truthy organic")
    case False
    with Some assms show ?thesis by (simp add: organic_hits_def)
  next
    case True
    with Some assms obtain items hits where it: "py_iter organic = Inr items"
      and co: "comprehension search_hit items = Inr hits" and v: "v = PList hits"
      by (auto simp: organic_hits_def and_then_Inr)
    from True it have "items \<noteq> []" by (cases organic) auto
    from comprehension_search_hit_items [OF this it co] have "organic = PList items" .
    moreover from co have "list_all2 (\<lambda>r h. search_hit r = Inr h) items hits"
      by (simp add: comprehension_Inr)
    moreover from this have "length hits = length items"
      by (simp add: list_all2_lengthD)
    ultimately show ?thesis using Some True v by simp
  qed
qed

lemma search_entity_info_Inr:
  assumes "search_entity_info env entity w = (Inr v, w')"
  shows "search_try env entity (butlast w') = Inr v \<and> w' = butlast w' @ [SearchCall entity]"
  using assms unfolding search_entity_info_def range_MAX_RETRIES
  by (auto simp: MAX_RETRIES_def RETRY_DELAY_def butlast_append split: sum.splits if_splits)

lemma search_try_Inr:
  "search_try env entity w = Inr v \<longleftrightarrow>
     (\<exists>results. get_dict env w (search_params env entity) = Inr results
        \<and> organic_hits results = Inr v)"
  by (simp add: search_try_def and_then_Inr)

lemma search_response_dicts:
  assumes "search_entity_info env entity w0 = (Inr v, w0')" and "py_truthy v"
  shows "\<exists>hs. v = PList hs \<and> hs \<noteq> [] \<and> (\<forall>h\<in>set hs. isinstance_dict h)"
proof -
  from assms(1) have "search_try env entity (butlast w0') = Inr v"
    by (simp add: search_entity_info_Inr)
  then obtain results where o: "organic_hits results = Inr v"
    by (auto simp: search_try_Inr)
  show ?thesis
  proof (cases "map_of results ''organic_results''")
    case None
    with organic_hits_Inr [OF o] assms(2) show ?thesis by simp
  next
    case (Some organic)
    show ?thesis
    proof (cases "py_truthy organic")
      case False
      with Some organic_hits_Inr [OF o] assms(2) show ?thesis by simp
    next
      case True
      with Some organic_hits_Inr [OF o] obtain items hs where v: "v = PList hs"
        and l: "list_all2 (\<lambda>r h. search_hit r = Inr h) items hs"
        by auto
      have "\<forall>h\<in>set hs. isinstance_dict h"
      proof
        fix h assume "h \<in> set hs"
        with l obtain r where "search_hit r = Inr h"
          by (auto simp: list_all2_conv_all_nth in_set_conv_nth)
        then show "isinstance_dict h" by (simp add: search_hit_Inr)
      qed
      with v assms(2) show ?thesis by simp
    qed
  qed
qed

lemma preprocess_dicts:
  assumes "preprocess_search_results (PList hs) = Inr pre" and "hs \<noteq> []"
    and "\<forall>h\<in>set hs. isinstance_dict h"
  shows "\<exists>hits. hits \<noteq> [] \<and> pre = PList (map hit hits)"
proof -
  from assms(1,2) obtain cleaned where cl: "clean_loop hs [] = Inr cleaned"
    and pre: "pre = PList cleaned"
    by (auto simp: preprocess_search_results_def and_then_Inr)
  from clean_loop_length [OF cl assms(3)] assms(2) have ne: "cleaned \<noteq> []" by auto
  from clean_loop_shape [OF cl] have "\<forall>c\<in>set cleaned. stripped_hit c" by simp
  then obtain hits where "cleaned = map hit hits" using stripped_hits_map by blast
  with ne pre show ?thesis by auto
qed

subsection \<open>The dictionary of entities\<close>

lemma ner_loop_lookup:
  "map_of (ner_loop ents entities) label =
     (case filter (\<lambda>ent. fst ent = label) ents of
        [] \<Rightarrow> map_of entities label
      | e # es \<Rightarrow> Some (snd (last (e # es))))"
proof (induction ents arbitrary: entities)
  case Nil then show ?case by simp
next
  case (Cons ent ents)
  show ?case
    by (cases "filter (\<lambda>ent. fst ent = label) ents")
       (auto simp: Cons.IH update_conv' split: list.splits)
qed

lemma ner_loop_distinct:
  "distinct (map fst entities) \<Longrightarrow> distinct (map fst (ner_loop ents entities))"
  by (induction ents arbitrary: entities) (simp_all add: distinct_update)

subsection \<open>The joined fields of a row\<close>

lemma joined_field_hits:
  "joined_field ''title'' (PList (map hit hits)) = Inr (py_join '', '' (map (\<lambda>(t, u, s). t) hits))"
  "joined_field ''url'' (PList (map hit hits)) = Inr (py_join '', '' (map (\<lambda>(t, u, s). u) hits))"
  "joined_field ''snippet'' (PList (map hit hits)) = Inr (py_join '', '' (map (\<lambda>(t, u, s). s) hits))"
proof -
  have t: "comprehension (\<lambda>result. py_get result ''title'' (PStr '''')) (map hit hits)
        = Inr (map (\<lambda>r. PStr (case r of PDict d \<Rightarrow> (case map_of d ''title'' of Some (PStr x) \<Rightarrow> x | _ \<Rightarrow> '''') | _ \<Rightarrow> '''')) (map hit hits))"
    by (rule comprehension_map) (auto simp: hit_def)
  have u: "comprehension (\<lambda>result. py_get result ''url'' (PStr '''')) (map hit hits)
        = Inr (map (\<lambda>r. PStr (case r of PDict d \<Rightarrow> (case map_of d ''url'' of Some (PStr x) \<Rightarrow> x | _ \<Rightarrow> '''') | _ \<Rightarrow> '''')) (map hit hits))"
    by (rule comprehension_map) (auto simp: hit_def)
  have s: "comprehension (\<lambda>result. py_get result ''snippet'' (PStr '''')) (map hit hits)
        = Inr (map (\<lambda>r. PStr (case r of PDict d \<Rightarrow> (case map_of d ''snippet'' of Some (PStr x) \<Rightarrow> x | _ \<Rightarrow> '''') | _ \<Rightarrow> '''')) (map hit hits))"
    by (rule comprehension_map) (auto simp: hit_def)
  have j: "comprehension as_str (map PStr xs) = Inr xs" for xs
    by (induction xs) (simp_all add: as_str_def)
  have mt: "map (\<lambda>r. PStr (case r of PDict d \<Rightarrow> (case map_of d ''title'' of Some (PStr x) \<Rightarrow> x | _ \<Rightarrow> '''') | _ \<Rightarrow> '''')) (map hit hits)
      = map PStr (map (\<lambda>(t, u, s). t) hits)"
    by (auto simp: hit_def)
  have mu: "map (\<lambda>r. PStr (case r of PDict d \<Rightarrow> (case map_of d ''url'' of Some (PStr x) \<Rightarrow> x | _ \<Rightarrow> '''') | _ \<Rightarrow> '''')) (map hit hits)
      = map PStr (map (\<lambda>(t, u, s). u) hits)"
    by (auto simp: hit_def)
  have ms: "map (\<lambda>r. PStr (case r of PDict d \<Rightarrow> (case map_of d ''snippet'' of Some (PStr x) \<Rightarrow> x | _ \<Rightarrow> '''') | _ \<Rightarrow> '''')) (map hit hits)
      = map PStr (map (\<lambda>(t, u, s). s) hits)"
    by (auto simp: hit_def)
  show "joined_field ''title'' (PList (map hit hits)) = Inr (py_join '', '' (map (\<lambda>(t, u, s). t) hits))"
    unfolding joined_field_def join_values_def by (simp only: py_iter.simps and_then_def sum.case t mt j)
  show "joined_field ''url'' (PList (map hit hits)) = Inr (py_join '', '' (map (\<lambda>(t, u, s). u) hits))"
    unfolding joined_field_def join_values_def by (simp only: py_iter.simps and_then_def sum.case u mu j)
  show "joined_field ''snippet'' (PList (map hit hits)) = Inr (py_join '', '' (map (\<lambda>(t, u, s). s) hits))"
    unfolding joined_field_def join_values_def by (simp only: py_iter.simps and_then_def sum.case s ms j)
qed

subsection \<open>The requests of one search\<close>








subsection \<open>From the upstream results to the hits\<close>









section \<open>The claims\<close>

text \<open>
  C1. A search whose every attempt fails, and an extraction whose prompt is built and
  whose every attempt fails, make exactly three requests, sleep 2 seconds after the first
  failure and 4 seconds after the second, do not sleep after the third, and raise the
  terminal error that carries the third failure. The trace shows the requests and the
  sleeps in their order.
\<close>

theorem retry_cap:
  "((\<forall>w'. prefix w w' \<longrightarrow> isl (search_try env entity w')) \<longrightarrow>
      search_entity_info env entity w =
        (Inl (Error_performing_search
               (projl (search_try env entity
                  (w @ [SearchCall entity, Sleep 2, SearchCall entity, Sleep 4])))),
         w @ [SearchCall entity, Sleep 2, SearchCall entity, Sleep 4, SearchCall entity]))
   \<and> (build_prompt env entity search_results query_template query_type = Inr prompt
        \<and> (\<forall>w'. prefix w w' \<longrightarrow> isl (groq_try env prompt w')) \<longrightarrow>
      extract_information_with_groq env entity search_results query_template query_type w =
        (Inl (Error_calling_Groq_API
               (projl (groq_try env prompt
                  (w @ [ChatCall prompt, Sleep 2, ChatCall prompt, Sleep 4])))),
         w @ [ChatCall prompt, Sleep 2, ChatCall prompt, Sleep 4, ChatCall prompt]))"
proof (intro conjI impI)
  assume fails: "\<forall>w'. prefix w w' \<longrightarrow> isl (search_try env entity w')"
  have "isl (search_try env entity w)" using fails by simp
  moreover have "isl (search_try env entity (w @ [SearchCall entity, Sleep 2]))"
    using fails by simp
  moreover have "isl (search_try env entity
      (w @ [SearchCall entity, Sleep 2, SearchCall entity, Sleep 4]))"
    using fails by simp
  ultimately show "search_entity_info env entity w =
        (Inl (Error_performing_search
               (projl (search_try env entity
                  (w @ [SearchCall entity, Sleep 2, SearchCall entity, Sleep 4])))),
         w @ [SearchCall entity, Sleep 2, SearchCall entity, Sleep 4, SearchCall entity])"
    by (auto simp: isl_def intro: search_three_failures)
next
  assume h: "build_prompt env entity search_results query_template query_type = Inr prompt
        \<and> (\<forall>w'. prefix w w' \<longrightarrow> isl (groq_try env prompt w'))"
  then have fails: "\<forall>w'. prefix w w' \<longrightarrow> isl (groq_try env prompt w')" by simp
  have "isl (groq_try env prompt w)" using fails by simp
  moreover have "isl (groq_try env prompt (w @ [ChatCall prompt, Sleep 2]))"
    using fails by simp
  moreover have "isl (groq_try env prompt
      (w @ [ChatCall prompt, Sleep 2, ChatCall prompt, Sleep 4]))"
    using fails by simp
  ultimately have "groq_attempts env prompt [0..<MAX_RETRIES] w =
        (Inl (Error_calling_Groq_API
               (projl (groq_try env prompt
                  (w @ [ChatCall prompt, Sleep 2, ChatCall prompt, Sleep 4])))),
         w @ [ChatCall prompt, Sleep 2, ChatCall prompt, Sleep 4, ChatCall prompt])"
    by (auto simp: isl_def intro: groq_three_failures)
  with h show "extract_information_with_groq env entity search_results query_template query_type w =
        (Inl (Error_calling_Groq_API
               (projl (groq_try env prompt
                  (w @ [ChatCall prompt, Sleep 2, ChatCall prompt, Sleep 4])))),
         w @ [ChatCall prompt, Sleep 2, ChatCall prompt, Sleep 4, ChatCall prompt])"
    by (simp add: extract_information_with_groq_def)
qed

theorem retry_cap_witness:
  "search_entity_info env_unreachable ''Acme'' [] =
     (Inl (Error_performing_search (ProviderError ''unreachable'')),
      [SearchCall ''Acme'', Sleep 2, SearchCall ''Acme'', Sleep 4, SearchCall ''Acme''])
   \<and> extract_information_with_groq env_unreachable ''Acme'' (PList []) ''age of {entity}'' ''Age'' [] =
     (Inl (Error_calling_Groq_API (ProviderError ''unreachable'')),
      [ChatCall (prompt_text ''age of Acme'' ''Acme'' ''Age'' ''''), Sleep 2,
       ChatCall (prompt_text ''age of Acme'' ''Acme'' ''Age'' ''''), Sleep 4,
       ChatCall (prompt_text ''age of Acme'' ''Acme'' ''Age'' '''')])"
proof -
  have s: "search_try env_unreachable ''Acme'' w' = Inl (ProviderError ''unreachable'')" for w'
    by (simp add: search_try_def env_unreachable_def example_env_def and_then_def)
  have g: "groq_try env_unreachable p w' = Inl (ProviderError ''unreachable'')" for p w'
    by (simp add: groq_try_def env_unreachable_def example_env_def and_then_def)
  have q: "generate_query ''Acme'' ''age of {entity}'' = ''age of Acme''"
    by (simp add: generate_query_def)
  have b: "build_prompt env_unreachable ''Acme'' (PList []) ''age of {entity}'' ''Age''
             = Inr (prompt_text ''age of Acme'' ''Acme'' ''Age'' '''')"
    by (simp add: build_prompt_def search_context_def and_then_def q)
  show ?thesis
    using retry_cap [of "[]" env_unreachable "''Acme''" "PList []" "''age of {entity}''" "''Age''"
        "prompt_text ''age of Acme'' ''Acme'' ''Age'' ''''"]
    by (simp add: s g b)
qed



text \<open>
  C3. A query template whose lower-cased form contains "career" and none of the keywords
  of the two earlier rules ("net worth", "age", "born") is classified as Biography: the
  Biography rule is tested before the Career rule.
\<close>

theorem classify_career_is_biography:
  assumes "py_in ''career'' (lower query)"
    and "\<not> py_in ''net worth'' (lower query)"
    and "\<not> py_in ''age'' (lower query)"
    and "\<not> py_in ''born'' (lower query)"
  shows "classify_query query = ''Biography''"
  using assms by (simp add: classify_query_def Let_def)

theorem classify_career_is_biography_witness:
  "classify_query ''Career of {entity}'' = ''Biography''"
proof -
  have "py_in ''career'' (lower ''Career of {entity}'')" by code_simp
  moreover have "\<not> py_in ''net worth'' (lower ''Career of {entity}'')" by code_simp
  moreover have "\<not> py_in ''age'' (lower ''Career of {entity}'')" by code_simp
  moreover have "\<not> py_in ''born'' (lower ''Career of {entity}'')" by code_simp
  ultimately show ?thesis by (rule classify_career_is_biography)
qed

text \<open>
  C4. When every call of the search raises, or the wrapped search returns a falsy value
  (\<open>None\<close> after the retries, or the empty list), the loop body still produces a row:
  "No search results found", empty title, url and snippet, the named entities and the
  query type as computed before the search. It then sleeps the rate-limit delay and the
  run goes on with the next entity.
\<close>

theorem search_failure_row:
  assumes "(\<forall>w'. isl (fst (search_entity_info env entity w')))
           \<or> \<not> py_truthy (fst (safe_api_call (search_entity_info env entity) w))"
  shows "\<exists>r w1. w1 = snd (safe_api_call (search_entity_info env entity) w)
           \<and> r = \<lparr>Entity = entity,
                   Extracted_Information = PStr ''No search results found'',
                   Search_Title = '''',
                   Search_URL = '''',
                   Search_Snippet = '''',
                   NER_Results = perform_ner env entity,
                   Query_Type = classify_query query_template\<rparr>
           \<and> process_entity env query_template entity w = (Inr r, w1 @ [Sleep RATE_LIMIT_DELAY])
           \<and> run_entities env query_template (entity # rest) results w =
               run_entities env query_template rest (results @ [r]) (w1 @ [Sleep RATE_LIMIT_DELAY])"
proof -
  obtain web_result w1 where s: "safe_api_call (search_entity_info env entity) w = (web_result, w1)"
    by (cases "safe_api_call (search_entity_info env entity) w")
  have "\<not> py_truthy web_result"
  proof (cases "\<forall>w'. isl (fst (search_entity_info env entity w'))")
    case True
    then have "fst (safe_api_call (search_entity_info env entity) w) = PNone"
      unfolding safe_api_call_def by (rule safe_attempts_all_raise)
    with s show ?thesis by simp
  next
    case False
    with assms s show ?thesis by simp
  qed
  with s have "process_entity env query_template entity w =
      (Inr \<lparr>Entity = entity,
            Extracted_Information = PStr ''No search results found'',
            Search_Title = '''',
            Search_URL = '''',
            Search_Snippet = '''',
            NER_Results = perform_ner env entity,
            Query_Type = classify_query query_template\<rparr>, w1 @ [Sleep RATE_LIMIT_DELAY])"
    by (simp add: process_entity_def)
  with s show ?thesis by simp
qed

theorem search_failure_row_witness:
  "fst (run_entities env_unreachable ''career of {entity}'' [''Acme'', ''Initech''] [] []) =
     Inr [\<lparr>Entity = ''Acme'',
           Extracted_Information = PStr ''No search results found'',
           Search_Title = '''', Search_URL = '''', Search_Snippet = '''',
           NER_Results = [(''PERSON'', ''Byron''), (''DATE'', ''1815'')],
           Query_Type = ''Biography''\<rparr>,
          \<lparr>Entity = ''Initech'',
           Extracted_Information = PStr ''No search results found'',
           Search_Title = '''', Search_URL = '''', Search_Snippet = '''',
           NER_Results = [(''PERSON'', ''Byron''), (''DATE'', ''1815'')],
           Query_Type = ''Biography''\<rparr>]
   \<and> process_entity (example_env (Inr no_results) (Inr [])) ''career of {entity}'' ''Acme'' [] =
     (Inr \<lparr>Entity = ''Acme'',
           Extracted_Information = PStr ''No search results found'',
           Search_Title = '''', Search_URL = '''', Search_Snippet = '''',
           NER_Results = [(''PERSON'', ''Byron''), (''DATE'', ''1815'')],
           Query_Type = ''Biography''\<rparr>,
      [SearchCall ''Acme'', Sleep 2])"
proof -
  have q: "classify_query ''career of {entity}'' = ''Biography''" by code_simp
  have n: "perform_ner (example_env a b) entity = [(''PERSON'', ''Byron''), (''DATE'', ''1815'')]"
    for a b entity
    by (simp add: perform_ner_def example_env_def)
  have n': "perform_ner env_unreachable entity = [(''PERSON'', ''Byron''), (''DATE'', ''1815'')]"
    for entity
    by (simp add: n env_unreachable_def)
  have e: "safe_api_call (search_entity_info (example_env (Inr no_results) (Inr [])) ''Acme'') [] =
      (PList [], [SearchCall ''Acme''])"
    unfolding safe_api_call_def range_app_MAX_RETRIES search_entity_info_def range_MAX_RETRIES
    by (simp add: search_try_def example_env_def no_results_def organic_hits_def and_then_def)
  have second: "process_entity (example_env (Inr no_results) (Inr [])) ''career of {entity}'' ''Acme'' [] =
     (Inr \<lparr>Entity = ''Acme'',
           Extracted_Information = PStr ''No search results found'',
           Search_Title = '''', Search_URL = '''', Search_Snippet = '''',
           NER_Results = [(''PERSON'', ''Byron''), (''DATE'', ''1815'')],
           Query_Type = ''Biography''\<rparr>,
      [SearchCall ''Acme'', Sleep 2])"
    using search_failure_row [of "example_env (Inr no_results) (Inr [])" "''Acme''" "[]"
        "''career of {entity}''" "[]" "[]"]
    by (simp add: e q n RATE_LIMIT_DELAY_def)
  have first: "fst (run_entities env_unreachable ''career of {entity}'' (entity # rest) results w) =
      fst (run_entities env_unreachable ''career of {entity}'' rest
        (results @ [\<lparr>Entity = entity,
           Extracted_Information = PStr ''No search results found'',
           Search_Title = '''', Search_URL = '''', Search_Snippet = '''',
           NER_Results = [(''PERSON'', ''Byron''), (''DATE'', ''1815'')],
           Query_Type = ''Biography''\<rparr>])
        (snd (safe_api_call (search_entity_info env_unreachable entity) w) @ [Sleep RATE_LIMIT_DELAY]))"
    for entity rest results w
    using search_failure_row [of env_unreachable entity w "''career of {entity}''" rest results]
    by (simp add: search_all_raise_unreachable q n' del: run_entities.simps)
  show ?thesis
    by (simp add: first second del: run_entities.simps(2))
qed

text \<open>
  C5. In the dictionary \<open>perform_ner\<close> returns, a label that the tagger found is bound to
  the text of its last span, a label it did not find is not a key, and no key occurs
  twice.
\<close>

theorem perform_ner_last_occurrence:
  "map_of (perform_ner env text) label =
     (if label \<in> fst ` set (nlp_ents env text)
      then Some (snd (last (filter (\<lambda>ent. fst ent = label) (nlp_ents env text))))
      else None)
   \<and> distinct (map fst (perform_ner env text))"
proof
  show "map_of (perform_ner env text) label =
     (if label \<in> fst ` set (nlp_ents env text)
      then Some (snd (last (filter (\<lambda>ent. fst ent = label) (nlp_ents env text))))
      else None)"
  proof (cases "filter (\<lambda>ent. fst ent = label) (nlp_ents env text)")
    case Nil
    then have "label \<notin> fst ` set (nlp_ents env text)"
      by (auto simp: filter_empty_conv)
    with Nil show ?thesis by (simp add: perform_ner_def ner_loop_lookup)
  next
    case (Cons e es)
    then have "e \<in> set (filter (\<lambda>ent. fst ent = label) (nlp_ents env text))" by simp
    then have "label \<in> fst ` set (nlp_ents env text)" by force
    with Cons show ?thesis by (simp add: perform_ner_def ner_loop_lookup)
  qed
  show "distinct (map fst (perform_ner env text))"
    by (simp add: perform_ner_def ner_loop_distinct)
qed

theorem perform_ner_last_occurrence_witness:
  "map_of (perform_ner env_unreachable ''Ada met Byron in 1815'') ''PERSON'' = Some ''Byron''
   \<and> perform_ner env_unreachable ''Ada met Byron in 1815'' = [(''PERSON'', ''Byron''), (''DATE'', ''1815'')]"
  using perform_ner_last_occurrence [of env_unreachable "''Ada met Byron in 1815''" "''PERSON''"]
  by (simp add: env_unreachable_def example_env_def perform_ner_def)

text \<open>
  C6. An input that is not a non-empty list (\<open>None\<close>, a scalar, a dictionary, the empty
  list) is answered with the empty list, and nothing is raised.
\<close>

theorem preprocess_not_nonempty_list:
  assumes "\<forall>x xs. results \<noteq> PList (x # xs)"
  shows "preprocess_search_results results = Inr (PList [])"
proof (cases results)
  case (PList items)
  with assms have "items = []" by (cases items) auto
  with PList show ?thesis by (simp add: preprocess_search_results_def)
qed (simp_all add: preprocess_search_results_def)

theorem preprocess_not_nonempty_list_witness:
  "preprocess_search_results PNone = Inr (PList [])
   \<and> preprocess_search_results (PInt 7) = Inr (PList [])
   \<and> preprocess_search_results (PStr ''title'') = Inr (PList [])
   \<and> preprocess_search_results (PDict [(''title'', PStr ''Foo'')]) = Inr (PList [])
   \<and> preprocess_search_results (PList []) = Inr (PList [])"
  using preprocess_not_nonempty_list [of PNone]
    preprocess_not_nonempty_list [of "PInt 7"]
    preprocess_not_nonempty_list [of "PStr ''title''"]
    preprocess_not_nonempty_list [of "PDict [(''title'', PStr ''Foo'')]"]
    preprocess_not_nonempty_list [of "PList []"]
  by simp

text \<open>
  C7. The hit with title " Foo ", no url key and the snippet key bound to \<open>None\<close>: the
  default of \<open>get\<close> applies to a missing key only, so \<open>strip\<close> is called on \<open>None\<close> and the
  function raises AttributeError. With the snippet key missing as well, the result is
  the hit the claim names.
\<close>

theorem preprocess_null_snippet_raises:
  "preprocess_search_results (PList [PDict [(''title'', PStr '' Foo ''), (''snippet'', PNone)]])
     = Inl AttributeError
   \<and> preprocess_search_results (PList [PDict [(''title'', PStr '' Foo '')]])
     = Inr (PList [PDict [(''title'', PStr ''Foo''), (''url'', PStr ''''), (''snippet'', PStr '''')]])"
  by (simp add: preprocess_search_results_def cleaned_result_def and_then_def strip_def
      py_isspace_def)

theorem preprocess_null_snippet_raises_witness:
  "isl (preprocess_search_results (PList [PDict [(''title'', PStr '' Foo ''), (''snippet'', PNone)]]))"
  using preprocess_null_snippet_raises by simp

text \<open>
  C8. Whatever \<open>preprocess_search_results\<close> returns, it returns again when applied to
  that value.
\<close>

theorem preprocess_idempotent:
  assumes "preprocess_search_results results = Inr out"
  shows "preprocess_search_results out = Inr out"
proof (cases "\<not> py_truthy results \<or> \<not> isinstance_list results")
  case True
  with assms have "out = PList []" by (simp add: preprocess_search_results_def)
  then show ?thesis by (simp add: preprocess_search_results_def)
next
  case False
  then obtain items where items: "results = PList items" by (cases results) auto
  with assms False obtain cleaned where cl: "clean_loop items [] = Inr cleaned"
    and out: "out = PList cleaned"
    by (auto simp: preprocess_search_results_def and_then_Inr)
  from clean_loop_shape [OF cl] have "\<forall>c\<in>set cleaned. stripped_hit c" by simp
  then have "clean_loop cleaned [] = Inr cleaned" using clean_loop_fixed [of cleaned "[]"] by simp
  with out show ?thesis by (simp add: preprocess_search_results_def and_then_def)
qed

theorem preprocess_idempotent_witness:
  "preprocess_search_results
     (PList [PDict [(''title'', PStr '' Foo ''), (''url'', PStr ''http://foo'')], PInt 3]) =
     Inr (PList [PDict [(''title'', PStr ''Foo''), (''url'', PStr ''http://foo''), (''snippet'', PStr '''')]])
   \<and> preprocess_search_results
     (PList [PDict [(''title'', PStr ''Foo''), (''url'', PStr ''http://foo''), (''snippet'', PStr '''')]]) =
     Inr (PList [PDict [(''title'', PStr ''Foo''), (''url'', PStr ''http://foo''), (''snippet'', PStr '''')]])"
proof -
  have first: "preprocess_search_results
     (PList [PDict [(''title'', PStr '' Foo ''), (''url'', PStr ''http://foo'')], PInt 3]) =
     Inr (PList [PDict [(''title'', PStr ''Foo''), (''url'', PStr ''http://foo''), (''snippet'', PStr '''')]])"
    by (simp add: preprocess_search_results_def cleaned_result_def and_then_def strip_def
        py_isspace_def)
  from preprocess_idempotent [OF first] first show ?thesis by simp
qed




text \<open>
  C10. When the search returns a truthy value, the preprocessing succeeds and the wrapped
  extraction returns \<open>None\<close>, the preprocessed results are a non-empty list of hits and the
  row records "Failed to extract" with the titles, urls and snippets of these hits, each
  joined by a comma and a space. The loop appends this row to the table and sleeps the
  rate-limit delay: a run over this entity alone ends with the table extended by the row,
  and a run over more entities goes on with the next one from there.
\<close>

theorem extraction_failure_row:
  assumes "safe_api_call (search_entity_info env entity) w = (web_result, w1)"
    and "py_truthy web_result"
    and "preprocess_search_results web_result = Inr preprocessed_results"
    and "safe_api_call
           (extract_information_with_groq env entity preprocessed_results query_template
              (classify_query query_template)) w1 = (PNone, w2)"
  shows "\<exists>hits r. hits \<noteq> [] \<and> preprocessed_results = PList (map hit hits)
           \<and> r = \<lparr>Entity = entity,
                   Extracted_Information = PStr ''Failed to extract'',
                   Search_Title = py_join '', '' (map (\<lambda>(title, url, snippet). title) hits),
                   Search_URL = py_join '', '' (map (\<lambda>(title, url, snippet). url) hits),
                   Search_Snippet = py_join '', '' (map (\<lambda>(title, url, snippet). snippet) hits),
                   NER_Results = perform_ner env entity,
                   Query_Type = classify_query query_template\<rparr>
           \<and> process_entity env query_template entity w = (Inr r, w2 @ [Sleep RATE_LIMIT_DELAY])
           \<and> run_entities env query_template [entity] results w =
               (Inr (results @ [r]), w2 @ [Sleep RATE_LIMIT_DELAY])
           \<and> run_entities env query_template (entity # rest) results w =
               run_entities env query_template rest (results @ [r]) (w2 @ [Sleep RATE_LIMIT_DELAY])"
proof -
  from assms(1,2) obtain w0 w0' where "search_entity_info env entity w0 = (Inr web_result, w0')"
    unfolding safe_api_call_def using safe_attempts_response by fastforce
  from search_response_dicts [OF this assms(2)] obtain hs where hs: "web_result = PList hs"
    "hs \<noteq> []" "\<forall>h\<in>set hs. isinstance_dict h" by blast
  from preprocess_dicts [OF assms(3) [unfolded hs(1)] hs(2,3)]
  obtain hits where hits: "hits \<noteq> []" "preprocessed_results = PList (map hit hits)" by blast
  have pe: "process_entity env query_template entity w =
      (Inr \<lparr>Entity = entity,
            Extracted_Information = PStr ''Failed to extract'',
            Search_Title = py_join '', '' (map (\<lambda>(title, url, snippet). title) hits),
            Search_URL = py_join '', '' (map (\<lambda>(title, url, snippet). url) hits),
            Search_Snippet = py_join '', '' (map (\<lambda>(title, url, snippet). snippet) hits),
            NER_Results = perform_ner env entity,
            Query_Type = classify_query query_template\<rparr>, w2 @ [Sleep RATE_LIMIT_DELAY])"
    using assms hits(2)
    by (simp add: process_entity_def joined_field_hits and_then_def py_or_def)
  show ?thesis
    by (rule exI [of _ hits]) (simp add: hits pe)
qed

theorem extraction_failure_row_witness:
  "fst (run_entities env_no_model ''career of {entity}'' [''Acme'', ''Initech''] [] []) =
     Inr [\<lparr>Entity = ''Acme'',
           Extracted_Information = PStr ''Failed to extract'',
           Search_Title = ''A, B'',
           Search_URL = ''http://a, http://b'',
           Search_Snippet = ''first, second'',
           NER_Results = [(''PERSON'', ''Byron''), (''DATE'', ''1815'')],
           Query_Type = ''Biography''\<rparr>,
          \<lparr>Entity = ''Initech'',
           Extracted_Information = PStr ''Failed to extract'',
           Search_Title = ''A, B'',
           Search_URL = ''http://a, http://b'',
           Search_Snippet = ''first, second'',
           NER_Results = [(''PERSON'', ''Byron''), (''DATE'', ''1815'')],
           Query_Type = ''Biography''\<rparr>]"
proof -
  let ?pre = "PList [hit (''A'', ''http://a'', ''first''), hit (''B'', ''http://b'', ''second'')]"
  let ?api = "\<lambda>entity. extract_information_with_groq env_no_model entity ?pre ''career of {entity}''
                (classify_query ''career of {entity}'')"
  let ?row = "\<lambda>entity. \<lparr>Entity = entity,
           Extracted_Information = PStr ''Failed to extract'',
           Search_Title = ''A, B'',
           Search_URL = ''http://a, http://b'',
           Search_Snippet = ''first, second'',
           NER_Results = [(''PERSON'', ''Byron''), (''DATE'', ''1815'')],
           Query_Type = ''Biography''\<rparr>"
  have q: "classify_query ''career of {entity}'' = ''Biography''" by code_simp
  have n: "perform_ner env_no_model entity = [(''PERSON'', ''Byron''), (''DATE'', ''1815'')]"
    for entity
    by (simp add: perform_ner_def example_env_def env_no_model_def)
  have s: "safe_api_call (search_entity_info env_no_model entity) w =
      (PList [PDict [(''title'', PStr ''A''), (''url'', PStr ''http://a''), (''snippet'', PStr '' first '')],
              PDict [(''title'', PStr ''B''), (''url'', PStr ''http://b''), (''snippet'', PStr ''second'')]],
       w @ [SearchCall entity])" for entity w
    unfolding safe_api_call_def range_app_MAX_RETRIES search_entity_info_def range_MAX_RETRIES
    by (simp add: search_try_def example_env_def env_no_model_def two_results_def
        organic_hits_def and_then_def search_hit_def)
  have t: "py_truthy
      (PList [PDict [(''title'', PStr ''A''), (''url'', PStr ''http://a''), (''snippet'', PStr '' first '')],
              PDict [(''title'', PStr ''B''), (''url'', PStr ''http://b''), (''snippet'', PStr ''second'')]])"
    by simp
  have p: "preprocess_search_results
      (PList [PDict [(''title'', PStr ''A''), (''url'', PStr ''http://a''), (''snippet'', PStr '' first '')],
              PDict [(''title'', PStr ''B''), (''url'', PStr ''http://b''), (''snippet'', PStr ''second'')]])
      = Inr ?pre"
    by (simp add: preprocess_search_results_def cleaned_result_def and_then_def strip_def
        py_isspace_def hit_def)
  have step: "fst (run_entities env_no_model ''career of {entity}'' (entity # rest) results w) =
      fst (run_entities env_no_model ''career of {entity}'' rest (results @ [?row entity])
        (snd (safe_api_call (?api entity) (w @ [SearchCall entity])) @ [Sleep RATE_LIMIT_DELAY]))"
    for entity rest results w
  proof -
    obtain prompt where b: "build_prompt env_no_model entity ?pre ''career of {entity}''
        (classify_query ''career of {entity}'') = Inr prompt"
      by (simp add: build_prompt_def search_context_def result_paragraph_def and_then_def hit_def)
    have g: "groq_try env_no_model prompt w' = Inl (ProviderError ''rate limit'')" for w'
      by (simp add: groq_try_def env_no_model_def example_env_def and_then_def)
    have "isl (fst (?api entity w'))" for w'
      using groq_three_failures [OF g g g, of w'] b
      by (simp add: extract_information_with_groq_def)
    then have "fst (safe_api_call (?api entity) (w @ [SearchCall entity])) = PNone"
      unfolding safe_api_call_def by (simp add: safe_attempts_all_raise)
    then have x: "safe_api_call (?api entity) (w @ [SearchCall entity]) =
        (PNone, snd (safe_api_call (?api entity) (w @ [SearchCall entity])))"
      by (metis prod.collapse)
    from extraction_failure_row [OF s t p x, where rest = rest and results = results]
    obtain hits r where h: "?pre = PList (map hit hits)"
      and r: "r = \<lparr>Entity = entity,
             Extracted_Information = PStr ''Failed to extract'',
             Search_Title = py_join '', '' (map (\<lambda>(title, url, snippet). title) hits),
             Search_URL = py_join '', '' (map (\<lambda>(title, url, snippet). url) hits),
             Search_Snippet = py_join '', '' (map (\<lambda>(title, url, snippet). snippet) hits),
             NER_Results = perform_ner env_no_model entity,
             Query_Type = classify_query ''career of {entity}''\<rparr>"
      and run: "run_entities env_no_model ''career of {entity}'' (entity # rest) results w =
               run_entities env_no_model ''career of {entity}'' rest (results @ [r])
                 (snd (safe_api_call (?api entity) (w @ [SearchCall entity])) @ [Sleep RATE_LIMIT_DELAY])"
      by (elim exE conjE) (rule that)
    from h have "hits = [(''A'', ''http://a'', ''first''), (''B'', ''http://b'', ''second'')]"
      by (auto simp: hit_inj map_eq_Cons_conv Cons_eq_map_conv)
    with r have "r = ?row entity" by (simp add: q n)
    with run show ?thesis by simp
  qed
  show ?thesis
    by (simp add: step del: run_entities.simps(2))
qed

end
